theory Spec2Isabelle
  imports Main
begin

section \<open>The Roslyn language server wrapper (src/lsptoolshost/roslynLanguageServer.ts)\<close>

text \<open>
  The class \<open>RoslynLanguageServer\<close> starts, stops and restarts a language client whose
  server process it launches itself. Its two private fields become the record
  \<open>server\<close>; everything it reads from the editor host, the option provider, the file
  system and the C# Devkit extension becomes the record \<open>world\<close>; what it does to
  them (lines written to the output channel, prompts, calls on the language client,
  spawned processes) is appended to \<open>events\<close>. A thrown \<open>Error\<close> or a rejected
  promise is the \<open>Inl\<close> of a sum.
\<close>

subsection \<open>Values\<close>

datatype error =
    Error string      \<comment> \<open>\<open>throw new Error(message)\<close> in this file\<close>
  | TypeError         \<comment> \<open>raised by the JavaScript runtime (\<open>in\<close> on a primitive, call of a non-function)\<close>
  | Rejected string   \<comment> \<open>a promise of a collaborator rejected; the string names the call\<close>

text \<open>The enum \<open>Trace\<close> of vscode-languageclient.\<close>

datatype Trace = Off | Messages | Compact | Verbose

text \<open>Of a \<open>vscode.Uri\<close> the file reads \<open>fsPath\<close> and, in a template string, \<open>toString()\<close>.\<close>

record uri =
  fsPath :: string
  toString :: string

text \<open>What \<open>cp.spawn(command, args)\<close> was called with.\<close>

record child_process =
  command :: string
  argv :: "string list"

subsection \<open>The C# Devkit extension\<close>

text \<open>
  \<open>getBrokeredServiceServerPipeName\<close> is awaited as a call: the property may hold
  something that is no function, the call may reject, or it resolves to
  \<open>string | undefined\<close>.
\<close>

datatype pipe_export = NotAFunction | PipeRejects | PipeReturns "string option"

text \<open>
  The exports object: a field is \<open>None\<close> when the object has no such property
  (for \<open>components\<close>: when it is falsy).
\<close>

record devkit_exports =
  getBrokeredServiceServerPipeName :: "pipe_export option"
  components :: "(string \<rightharpoonup> string) option"

text \<open>
  The exports are typed \<open>any | undefined\<close>: a falsy value (\<open>undefined\<close>, \<open>null\<close>,
  ...), a truthy primitive, or an object.
\<close>

datatype js_exports = Falsy | TruthyPrimitive | Object devkit_exports

datatype activation = ActivationRejects | Activated js_exports

subsection \<open>Options and the world outside the class\<close>

record common_options =
  serverPath :: string
  waitForDebugger :: bool

record language_server_options =
  logLevel :: string

record options =
  commonOptions :: common_options
  languageServerOptions :: language_server_options

record world =
  isWindows :: bool                          \<comment> \<open>\<open>platformInfo.isWindows()\<close>\<close>
  isMacOS :: bool                            \<comment> \<open>\<open>platformInfo.isMacOS()\<close>\<close>
  GetLatestOptions :: options                \<comment> \<open>\<open>optionProvider.GetLatestOptions()\<close>\<close>
  getHostExecutableInfo :: "error + string"  \<comment> \<open>the resolved dotnet's version, or the rejection\<close>
  findFiles :: "uri list"                    \<comment> \<open>\<open>vscode.workspace.findFiles('*.sln', ..., 1)\<close>\<close>
  dirname :: string                          \<comment> \<open>\<open>__dirname\<close>\<close>
  path_join :: "string list \<Rightarrow> string"        \<comment> \<open>\<open>path.join\<close>\<close>
  existsSync :: "string \<Rightarrow> bool"              \<comment> \<open>\<open>fs.existsSync\<close>\<close>
  getExtension :: "activation option"        \<comment> \<open>\<open>vscode.extensions.getExtension(csharpDevkitExtensionId)\<close>
                                                 and what its \<open>activate()\<close> resolves to\<close>
  stopResolves :: bool                       \<comment> \<open>whether \<open>LanguageClient.stop(timeout)\<close> resolves\<close>
  reachesRunning :: bool                     \<comment> \<open>whether the session reaches \<open>State.Running\<close>\<close>

subsection \<open>Effects and the state of the class\<close>

datatype event =
    AppendLine string                         \<comment> \<open>\<open>_channel.appendLine\<close>\<close>
  | ShowInformationMessage string string string
      \<comment> \<open>message, and the title and command of the offered item\<close>
  | ClientStart nat                           \<comment> \<open>\<open>client.start()\<close>\<close>
  | ClientStartFailed nat error               \<comment> \<open>the promise of \<open>client.start()\<close> rejected\<close>
  | SetTrace nat Trace                        \<comment> \<open>\<open>client.setTrace\<close>\<close>
  | OnRequest nat string                      \<comment> \<open>\<open>client.onRequest(method, ...)\<close>\<close>
  | OnNotification nat string                 \<comment> \<open>\<open>client.onNotification(method, ...)\<close>\<close>
  | RegisterCommand string                    \<comment> \<open>\<open>vscode.commands.registerCommand(id, ...)\<close>\<close>
  | ClientStop nat nat                        \<comment> \<open>\<open>client.stop(timeout)\<close>\<close>
  | ClientDispose nat nat                     \<comment> \<open>\<open>client.dispose(timeout)\<close>\<close>
  | Spawn child_process                       \<comment> \<open>\<open>cp.spawn\<close>\<close>

text \<open>
  A language client is named by a number, the count of clients created before it.
  \<open>clients\<close> is not a field of the class: it lists the clients that were created
  and whose \<open>stop\<close> has not resolved. \<open>commands\<close> is the editor's: the command ids
  that are registered with it.
\<close>

record server =
  languageClient :: "nat option"               \<comment> \<open>\<open>_languageClient\<close>\<close>
  wasActivatedWithCSharpDevkit :: "bool option" \<comment> \<open>\<open>_wasActivatedWithCSharpDevkit\<close>\<close>
  events :: "event list"
  created :: nat
  clients :: "nat list"
  commands :: "string list"

definition csharpDevkitExtensionId :: string where
  "csharpDevkitExtensionId = ''ms-dotnettools.csdevkit''"

definition stopTimeout :: nat where
  "stopTimeout = 10000"

text \<open>A string in a JavaScript condition is true when it is not empty.\<close>

definition truthy :: "string \<Rightarrow> bool" where
  "truthy str = (str \<noteq> [])"

text \<open>\<open>String.prototype.endsWith\<close>.\<close>

definition endsWith :: "string \<Rightarrow> string \<Rightarrow> bool" where
  "endsWith str suffix =
     (length suffix \<le> length str \<and> drop (length str - length suffix) str = suffix)"

definition appendLine :: "string \<Rightarrow> server \<Rightarrow> server" where
  "appendLine line s = s\<lparr>events := events s @ [AppendLine line]\<rparr>"

subsection \<open>The extension-change handler of the constructor (lines 69 to 89)\<close>

definition onDidChange :: "world \<Rightarrow> server \<Rightarrow> server" where
  "onDidChange w s =
     (let csharpDevkitExtension = getExtension w in
      case wasActivatedWithCSharpDevkit s of
        None \<Rightarrow> s
      | Some wasActivated \<Rightarrow>
          let title = ''Restart Language Server'';
              command = ''dotnet.restartServer''
          in if csharpDevkitExtension \<noteq> None \<and> \<not> wasActivated then
               let s1 = appendLine (''Detected new installation of '' @ csharpDevkitExtensionId) s;
                   message = ''Detected installation of '' @ csharpDevkitExtensionId
                     @ ''. Would you like to relaunch the language server for added features?''
               in s1\<lparr>events := events s1 @ [ShowInformationMessage message title command]\<rparr>
             else s)"

subsection \<open>GetTraceLevel (lines 320 to 340)\<close>

definition GetTraceLevel :: "string \<Rightarrow> server \<Rightarrow> (error + Trace) \<times> server" where
  "GetTraceLevel level s =
     (if level = ''Trace'' then (Inr Verbose, s)
      else if level = ''Debug'' then (Inr Messages, s)
      else if level = ''Information'' then (Inr Off, s)
      else if level = ''Warning'' then (Inr Off, s)
      else if level = ''Error'' then (Inr Off, s)
      else if level = ''Critical'' then (Inr Off, s)
      else if level = ''None'' then (Inr Off, s)
      else (Inl (Error (''Invalid log level '' @ level)),
            appendLine (''Invalid log level '' @ level
              @ '', server will not start. Please set the 'dotnet.server.trace' configuration to a valid value'') s))"

subsection \<open>The capability lookups (lines 286 to 318)\<close>

definition waitForCSharpDevkitActivationAndGetExports ::
    "world \<Rightarrow> server \<Rightarrow> (error + js_exports) \<times> server" where
  "waitForCSharpDevkitActivationAndGetExports w s =
     (case getExtension w of
        None \<Rightarrow>
          (Inr Falsy,
           (appendLine ''Activating C# standalone...'' s)\<lparr>wasActivatedWithCSharpDevkit := Some False\<rparr>)
      | Some csharpDevkitExtension \<Rightarrow>
          let s1 = (appendLine ''Activating C# + Devkit...'' s)\<lparr>wasActivatedWithCSharpDevkit := Some True\<rparr>
          in (case csharpDevkitExtension of
                ActivationRejects \<Rightarrow> (Inl (Rejected ''activate''), s1)
              | Activated csharpDevkitExports \<Rightarrow> (Inr csharpDevkitExports, s1)))"

definition getBrokeredServicePipeName :: "server \<Rightarrow> js_exports \<Rightarrow> error + string option" where
  "getBrokeredServicePipeName s csharpDevkitExports =
     (if wasActivatedWithCSharpDevkit s \<noteq> Some True then Inr None
      else case csharpDevkitExports of
             Falsy \<Rightarrow> Inr None
           | TruthyPrimitive \<Rightarrow> Inl TypeError
           | Object ex \<Rightarrow>
               (case getBrokeredServiceServerPipeName ex of
                  None \<Rightarrow> Inl (Error
                    ''C# Devkit is installed but missing expected export getBrokeredServiceServerPipeName'')
                | Some NotAFunction \<Rightarrow> Inl TypeError
                | Some PipeRejects \<Rightarrow> Inl (Rejected ''getBrokeredServiceServerPipeName'')
                | Some (PipeReturns brokeredServicePipeName) \<Rightarrow> Inr brokeredServicePipeName))"

definition getStarredCompletionComponentPath :: "server \<Rightarrow> js_exports \<Rightarrow> string option" where
  "getStarredCompletionComponentPath s csharpDevkitExports =
     (if wasActivatedWithCSharpDevkit s \<noteq> Some True then None
      else case csharpDevkitExports of
             Falsy \<Rightarrow> None
           | TruthyPrimitive \<Rightarrow> None
           | Object ex \<Rightarrow>
               (case components ex of
                  None \<Rightarrow> None
                | Some cs \<Rightarrow>
                    (case cs ''@vsintellicode/starred-suggestions-csharp'' of
                       None \<Rightarrow> None
                     | Some p \<Rightarrow> if truthy p then Some p else None)))"

subsection \<open>The process launcher (lines 187 to 284)\<close>

definition getServerFileName :: "world \<Rightarrow> string" where
  "getServerFileName w =
     (let serverFileName = ''Microsoft.CodeAnalysis.LanguageServer'';
          extension = '''';
          extension = (if isWindows w then ''.exe'' else extension);
          extension = (if isMacOS w then ''.dll'' else extension)
      in serverFileName @ extension)"

text \<open>Lines 190 to 194: the option when it is set, else the path inside the extension.\<close>

definition resolveServerPath :: "world \<Rightarrow> string" where
  "resolveServerPath w =
     (let clientRoot = dirname w;
          serverPath = serverPath (commonOptions (GetLatestOptions w))
      in if \<not> truthy serverPath
         then path_join w [clientRoot, ''..'', ''.roslyn'', getServerFileName w]
         else serverPath)"

text \<open>Lines 207 to 229: the argument list, in the order of the pushes.\<close>

definition buildArgs ::
    "bool \<Rightarrow> string option \<Rightarrow> string option \<Rightarrow> uri option \<Rightarrow> string option \<Rightarrow> string list" where
  "buildArgs debug level brokeredServicePipeName solutionPath starredCompletionComponentPath =
     (let args = [];
          args = (if debug then args @ [''--debug''] else args);
          args = (case level of
                    Some l \<Rightarrow> if truthy l then args @ [''--logLevel'', l] else args
                  | None \<Rightarrow> args);
          args = (case brokeredServicePipeName of
                    Some n \<Rightarrow>
                      if truthy n then args @ [''--brokeredServicePipeName'', n]
                      else (case solutionPath of
                              Some u \<Rightarrow> args @ [''--solutionPath'', fsPath u]
                            | None \<Rightarrow> args)
                  | None \<Rightarrow>
                      (case solutionPath of
                         Some u \<Rightarrow> args @ [''--solutionPath'', fsPath u]
                       | None \<Rightarrow> args));
          args = (case starredCompletionComponentPath of
                    Some p \<Rightarrow>
                      if truthy p then args @ [''--starredCompletionComponentPath'', p] else args
                  | None \<Rightarrow> args)
      in args)"

definition startServer ::
    "world \<Rightarrow> uri option \<Rightarrow> string option \<Rightarrow> server \<Rightarrow> (error + child_process) \<times> server" where
  "startServer w solutionPath level s =
     (let serverPath = resolveServerPath w in
      if \<not> existsSync w serverPath then
        (Inl (Error (''Cannot find language server in path ''
                      @ [CHR 0x27] @ serverPath @ [CHR 0x27, CHR 0x27])), s)
      else
        case waitForCSharpDevkitActivationAndGetExports w s of
          (Inl e, s1) \<Rightarrow> (Inl e, s1)
        | (Inr vsGreenExports, s1) \<Rightarrow>
            (case getBrokeredServicePipeName s1 vsGreenExports of
               Inl e \<Rightarrow> (Inl e, s1)
             | Inr brokeredServicePipeName \<Rightarrow>
                 let starredCompletionComponentPath =
                       getStarredCompletionComponentPath s1 vsGreenExports;
                     args = buildArgs (waitForDebugger (commonOptions (GetLatestOptions w))) level
                              brokeredServicePipeName solutionPath starredCompletionComponentPath;
                     s2 = appendLine (''Starting server at '' @ serverPath) s1;
                     childProcess =
                       (if endsWith serverPath ''.dll''
                        then \<lparr>command = ''dotnet'', argv = [serverPath] @ args\<rparr>
                        else \<lparr>command = serverPath, argv = args\<rparr>)
                 in (Inr childProcess, s2\<lparr>events := events s2 @ [Spawn childProcess]\<rparr>)))"

subsection \<open>The lifecycle (lines 95 to 185, 246 to 267)\<close>

text \<open>
  \<open>vscode.commands.registerCommand\<close> throws when the id is already registered; the
  disposable it returns is dropped on lines 258 to 266, so a command once registered
  stays registered.
\<close>

definition registerCommand :: "string \<Rightarrow> server \<Rightarrow> error + server" where
  "registerCommand ident s =
     (if ident \<in> set (commands s)
      then Inl (Error (''command '' @ [CHR 0x27] @ ident @ [CHR 0x27] @ '' already exists''))
      else Inr (s\<lparr>commands := commands s @ [ident],
                  events := events s @ [RegisterCommand ident]\<rparr>))"

definition roslynDidOpenCommand :: string where
  "roslynDidOpenCommand = ''roslyn.openRazorCSharp''"

definition roslynDidChangeCommand :: string where
  "roslynDidChangeCommand = ''roslyn.changeRazorCSharp''"

definition roslynDidCloseCommand :: string where
  "roslynDidCloseCommand = ''roslyn.closeRazorCSharp''"

definition provideRazorDynamicFileInfoMethodName :: string where
  "provideRazorDynamicFileInfoMethodName = ''razor/provideDynamicFileInfo''"

definition removeRazorDynamicFileInfoMethodName :: string where
  "removeRazorDynamicFileInfoMethodName = ''razor/removeDynamicFileInfo''"

definition registerRazor :: "nat \<Rightarrow> server \<Rightarrow> (error + unit) \<times> server" where
  "registerRazor client s =
     (let s1 = s\<lparr>events := events s
                  @ [OnRequest client provideRazorDynamicFileInfoMethodName,
                     OnNotification client removeRazorDynamicFileInfoMethodName]\<rparr>
      in case registerCommand roslynDidOpenCommand s1 of
           Inl e \<Rightarrow> (Inl e, s1)
         | Inr s2 \<Rightarrow>
             (case registerCommand roslynDidChangeCommand s2 of
                Inl e \<Rightarrow> (Inl e, s2)
              | Inr s3 \<Rightarrow>
                  (case registerCommand roslynDidCloseCommand s3 of
                     Inl e \<Rightarrow> (Inl e, s3)
                   | Inr s4 \<Rightarrow> (Inr (), s4))))"

text \<open>
  The language client is a library. Of its \<open>start()\<close> the model keeps that it calls
  the server options, the function that \<open>start\<close> below hands it, once, and that
  after a launch the session may reach \<open>State.Running\<close>, when the handler given to
  \<open>onDidChangeState\<close> runs. The promise of \<open>client.start()\<close> is not awaited on
  line 165: a launch that fails is the event \<open>ClientStartFailed\<close> and is no
  result of \<open>start\<close>. The launch is run to its end where \<open>client.start()\<close> is
  called, before \<open>registerRazor\<close>. The client options (document selector, file watcher,
  URI converters, configuration middleware) are handed to the library and read by
  nothing in this file; they are left out.
\<close>

definition clientLaunch ::
    "world \<Rightarrow> nat \<Rightarrow> (server \<Rightarrow> (error + child_process) \<times> server) \<Rightarrow> (server \<Rightarrow> server)
       \<Rightarrow> server \<Rightarrow> server" where
  "clientLaunch w client serverOptions onRunning s =
     (case serverOptions s of
        (Inl e, s1) \<Rightarrow> s1\<lparr>events := events s1 @ [ClientStartFailed client e]\<rparr>
      | (Inr childProcess, s1) \<Rightarrow> if reachesRunning w then onRunning s1 else s1)"

text \<open>
  The handler of lines 158 to 162, once the state is \<open>State.Running\<close>: it reads the
  field. On an empty field the call throws inside the handler, which nothing awaits.
\<close>

definition setTraceWhenRunning :: "Trace \<Rightarrow> server \<Rightarrow> server" where
  "setTraceWhenRunning languageClientTraceLevel s =
     (case languageClient s of
        None \<Rightarrow> s
      | Some client \<Rightarrow> s\<lparr>events := events s @ [SetTrace client languageClientTraceLevel]\<rparr>)"

definition start :: "world \<Rightarrow> server \<Rightarrow> (error + unit) \<times> server" where
  "start w s =
     (let opts = GetLatestOptions w in
      case getHostExecutableInfo w of
        Inl e \<Rightarrow> (Inl e, s)
      | Inr version \<Rightarrow>
          let s1 = appendLine (''Dotnet version: '' @ version) s;
              solutionPath = (case findFiles w of [] \<Rightarrow> None | u # _ \<Rightarrow> Some u);
              s2 = (case solutionPath of
                      Some u \<Rightarrow> appendLine (''Found solution '' @ toString u) s1
                    | None \<Rightarrow> s1);
              level = logLevel (languageServerOptions opts)
          in (case GetTraceLevel level s2 of
                (Inl e, s3) \<Rightarrow> (Inl e, s3)
              | (Inr languageClientTraceLevel, s3) \<Rightarrow>
                  let serverOptions = startServer w solutionPath (Some level);
                      client = created s3;
                      s4 = s3\<lparr>languageClient := Some client,
                              created := Suc client,
                              clients := clients s3 @ [client]\<rparr>;
                      s5 = s4\<lparr>events := events s4 @ [ClientStart client]\<rparr>;
                      s6 = clientLaunch w client serverOptions
                             (setTraceWhenRunning languageClientTraceLevel) s5
                  in registerRazor client s6))"

definition stop :: "world \<Rightarrow> server \<Rightarrow> (error + unit) \<times> server" where
  "stop w s =
     (case languageClient s of
        None \<Rightarrow> (Inr (), s\<lparr>languageClient := None\<rparr>)
      | Some client \<Rightarrow>
          let s1 = s\<lparr>events := events s @ [ClientStop client stopTimeout]\<rparr>
          in if \<not> stopResolves w then (Inl (Rejected ''stop''), s1)
             else
               let s2 = s1\<lparr>events := events s1 @ [ClientDispose client stopTimeout]\<rparr>
               in (Inr (), s2\<lparr>languageClient := None, clients := removeAll client (clients s2)\<rparr>))"

definition restart :: "world \<Rightarrow> server \<Rightarrow> (error + unit) \<times> server" where
  "restart w s =
     (case stop w s of
        (Inl e, s1) \<Rightarrow> (Inl e, s1)
      | (Inr _, s1) \<Rightarrow> start w s1)"

section \<open>Vocabulary of the properties\<close>

definition recognizedLogLevels :: "string list" where
  "recognizedLogLevels =
     [''Trace'', ''Debug'', ''Information'', ''Warning'', ''Error'', ''Critical'', ''None'']"

text \<open>The processes spawned in a run of events, in order.\<close>

fun spawned :: "event list \<Rightarrow> child_process list" where
  "spawned [] = []"
| "spawned (Spawn c # evs) = c # spawned evs"
| "spawned (_ # evs) = spawned evs"

text \<open>
  An argument list read as the server's command line: \<open>--debug\<close> stands alone, every
  other flag takes the token after it as its value. A token in value position is no
  flag, whatever it spells.
\<close>

fun cliFlags :: "string list \<Rightarrow> (string \<times> string option) list" where
  "cliFlags [] = []"
| "cliFlags [t] = [(t, None)]"
| "cliFlags (t # v # ts) =
     (if t = ''--debug'' then (t, None) # cliFlags (v # ts) else (t, Some v) # cliFlags ts)"

definition flagValues :: "string \<Rightarrow> string list \<Rightarrow> string option list" where
  "flagValues name args = map snd (filter (\<lambda>(t, v). t = name) (cliFlags args))"

text \<open>\<open>if (brokeredServicePipeName)\<close> on a \<open>string | undefined\<close>.\<close>

definition obtained :: "string option \<Rightarrow> bool" where
  "obtained name = (case name of Some n \<Rightarrow> truthy n | None \<Rightarrow> False)"

text \<open>The clients that are live are the one the class holds, if it holds one.\<close>

definition singleHandle :: "server \<Rightarrow> bool" where
  "singleHandle s = (clients s = (case languageClient s of None \<Rightarrow> [] | Some c \<Rightarrow> [c]))"

text \<open>The messages of the two errors thrown on the launch path (lines 197 and 305).\<close>

definition notFoundMessage :: "string \<Rightarrow> string" where
  "notFoundMessage p = ''Cannot find language server in path '' @ [CHR 0x27] @ p @ [CHR 0x27, CHR 0x27]"

definition missingExportMessage :: string where
  "missingExportMessage =
     ''C# Devkit is installed but missing expected export getBrokeredServiceServerPipeName''"

text \<open>What the extension-change handler emits when it offers the restart.\<close>

definition restartPrompt :: "event list" where
  "restartPrompt =
     [AppendLine ''Detected new installation of ms-dotnettools.csdevkit'',
      ShowInformationMessage
        ''Detected installation of ms-dotnettools.csdevkit. Would you like to relaunch the language server for added features?''
        ''Restart Language Server'' ''dotnet.restartServer'']"

text \<open>The informational prompts in a run of events.\<close>

fun prompts :: "event list \<Rightarrow> event list" where
  "prompts [] = []"
| "prompts (ShowInformationMessage m t c # evs) = ShowInformationMessage m t c # prompts evs"
| "prompts (_ # evs) = prompts evs"

subsection \<open>A concrete world and the state after construction\<close>

text \<open>
  A Linux host whose server path option names a library bundle that exists, one
  solution in the workspace, no C# Devkit. Of \<open>path.join\<close> it answers the one call
  the default server path makes.
\<close>

definition exampleWorld :: world where
  "exampleWorld =
     \<lparr>isWindows = False,
      isMacOS = False,
      GetLatestOptions =
        \<lparr>commonOptions =
           \<lparr>serverPath = ''/opt/roslyn/Microsoft.CodeAnalysis.LanguageServer.dll'',
            waitForDebugger = True\<rparr>,
         languageServerOptions = \<lparr>logLevel = ''Debug''\<rparr>\<rparr>,
      getHostExecutableInfo = Inr ''7.0.100'',
      findFiles = [\<lparr>fsPath = ''/work/App.sln'', toString = ''file:///work/App.sln''\<rparr>],
      dirname = ''/ext/dist'',
      path_join = (\<lambda>parts.
        if parts = [''/ext/dist'', ''..'', ''.roslyn'', ''Microsoft.CodeAnalysis.LanguageServer'']
        then ''/ext/.roslyn/Microsoft.CodeAnalysis.LanguageServer'' else concat parts),
      existsSync = (\<lambda>p. p = ''/opt/roslyn/Microsoft.CodeAnalysis.LanguageServer.dll''
                        \<or> p = ''/ext/.roslyn/Microsoft.CodeAnalysis.LanguageServer''),
      getExtension = None,
      stopResolves = True,
      reachesRunning = True\<rparr>"

definition exampleSolution :: uri where
  "exampleSolution = \<lparr>fsPath = ''/work/App.sln'', toString = ''file:///work/App.sln''\<rparr>"

text \<open>The same world with the server path option changed.\<close>

definition withServerPath :: "string \<Rightarrow> world \<Rightarrow> world" where
  "withServerPath p w =
     w\<lparr>GetLatestOptions := (GetLatestOptions w)
          \<lparr>commonOptions := (commonOptions (GetLatestOptions w))\<lparr>serverPath := p\<rparr>\<rparr>\<rparr>"

definition withLogLevel :: "string \<Rightarrow> world \<Rightarrow> world" where
  "withLogLevel l w =
     w\<lparr>GetLatestOptions := (GetLatestOptions w)
          \<lparr>languageServerOptions := (languageServerOptions (GetLatestOptions w))\<lparr>logLevel := l\<rparr>\<rparr>\<rparr>"

text \<open>A C# Devkit that exports the pipe name and the completion component.\<close>

definition exampleExports :: devkit_exports where
  "exampleExports =
     \<lparr>getBrokeredServiceServerPipeName = Some (PipeReturns (Some ''pipe-42'')),
      components = Some [''@vsintellicode/starred-suggestions-csharp'' \<mapsto> ''/devkit/starred'']\<rparr>"

definition initialServer :: server where
  "initialServer =
     \<lparr>languageClient = None, wasActivatedWithCSharpDevkit = None, events = [],
      created = 0, clients = [], commands = []\<rparr>"

text \<open>
  A server that holds client 0, started without C# Devkit: the three commands of
  \<open>registerRazor\<close> are registered.
\<close>

definition runningServer :: server where
  "runningServer =
     \<lparr>languageClient = Some 0, wasActivatedWithCSharpDevkit = Some False, events = [],
      created = 1, clients = [0],
      commands = [''roslyn.openRazorCSharp'', ''roslyn.changeRazorCSharp'',
                  ''roslyn.closeRazorCSharp'']\<rparr>"

section \<open>Properties\<close>

subsection \<open>Auxiliary facts\<close>

lemma spawned_append: "spawned (xs @ ys) = spawned xs @ spawned ys"
  by (induction xs rule: spawned.induct) simp_all

lemma endsWith_iff: "endsWith str suffix \<longleftrightarrow> (\<exists>pre. str = pre @ suffix)"
proof
  assume "endsWith str suffix"
  then have "str = take (length str - length suffix) str @ suffix"
    by (metis append_take_drop_id endsWith_def)
  then show "\<exists>pre. str = pre @ suffix" ..
next
  assume "\<exists>pre. str = pre @ suffix"
  then show "endsWith str suffix"
    by (auto simp: endsWith_def)
qed

lemma GetTraceLevel_recognized:
  "level \<in> set recognizedLogLevels \<Longrightarrow>
     GetTraceLevel level s =
       (Inr (if level = ''Trace'' then Verbose else if level = ''Debug'' then Messages else Off), s)"
  by (auto simp: recognizedLogLevels_def GetTraceLevel_def)

lemma GetTraceLevel_unrecognized:
  "level \<notin> set recognizedLogLevels \<Longrightarrow>
     GetTraceLevel level s =
       (Inl (Error (''Invalid log level '' @ level)),
        appendLine (''Invalid log level '' @ level
              @ '', server will not start. Please set the 'dotnet.server.trace' configuration to a valid value'') s)"
  by (simp add: recognizedLogLevels_def GetTraceLevel_def)

lemma waitFor_cases:
  "waitForCSharpDevkitActivationAndGetExports w s = (r, s1) \<Longrightarrow>
     languageClient s1 = languageClient s \<and> clients s1 = clients s \<and> created s1 = created s
     \<and> (\<exists>l. events s1 = events s @ [AppendLine l])"
  by (auto simp: waitForCSharpDevkitActivationAndGetExports_def appendLine_def Let_def
      split: option.splits activation.splits)

lemma startServer_frame:
  "startServer w sol lvl s = (r, s') \<Longrightarrow>
     languageClient s' = languageClient s \<and> clients s' = clients s \<and> created s' = created s
     \<and> (\<exists>evs. events s' = events s @ evs)"
  unfolding startServer_def Let_def
  by (auto simp: appendLine_def split: if_splits prod.splits sum.splits dest!: waitFor_cases)

lemma prompts_append: "prompts (xs @ ys) = prompts xs @ prompts ys"
  by (induction xs rule: prompts.induct) simp_all

lemma startServer_missing:
  "\<not> existsSync w (resolveServerPath w) \<Longrightarrow>
     startServer w sol lvl s = (Inl (Error (notFoundMessage (resolveServerPath w))), s)"
  by (simp add: startServer_def notFoundMessage_def Let_def)

lemma waitFor_commands:
  "waitForCSharpDevkitActivationAndGetExports w s = (r, s1) \<Longrightarrow> commands s1 = commands s"
  by (auto simp: waitForCSharpDevkitActivationAndGetExports_def appendLine_def Let_def
      split: option.splits activation.splits)

lemma startServer_commands:
  "startServer w sol lvl s = (r, s') \<Longrightarrow> commands s' = commands s"
  unfolding startServer_def Let_def
  by (auto simp: appendLine_def split: if_splits prod.splits sum.splits dest!: waitFor_commands)

lemma clientLaunch_frame:
  assumes "t = clientLaunch w c (startServer w sol lvl) (setTraceWhenRunning lev) s"
  shows "languageClient t = languageClient s \<and> clients t = clients s \<and> created t = created s
         \<and> commands t = commands s \<and> (\<exists>evs. events t = events s @ evs)"
proof -
  obtain r s' where run: "startServer w sol lvl s = (r, s')"
    by fastforce
  from startServer_frame [OF run] startServer_commands [OF run] run assms show ?thesis
    by (cases r) (auto simp: clientLaunch_def setTraceWhenRunning_def split: option.splits)
qed

lemma registerCommand_frame:
  "registerCommand ident s = Inr s' \<Longrightarrow>
     languageClient s' = languageClient s \<and> clients s' = clients s \<and> created s' = created s
     \<and> events s' = events s @ [RegisterCommand ident]"
  by (auto simp: registerCommand_def split: if_splits)

lemma registerRazor_frame:
  "registerRazor c s = (r, s') \<Longrightarrow>
     languageClient s' = languageClient s \<and> clients s' = clients s \<and> created s' = created s
     \<and> (\<exists>evs. events s' = events s @ evs \<and> spawned evs = [])"
  unfolding registerRazor_def Let_def
  by (auto split: sum.splits dest!: registerCommand_frame)

lemma registerRazor_outcome:
  "commands s = commands t \<Longrightarrow> fst (registerRazor c s) = fst (registerRazor c t)"
  by (simp add: registerRazor_def registerCommand_def Let_def)

lemma start_early:
  "getHostExecutableInfo w = Inl e \<Longrightarrow> start w s = (Inl e, s)"
  by (simp add: start_def Let_def)

lemma start_invalid:
  assumes "getHostExecutableInfo w = Inr v"
    and "logLevel (languageServerOptions (GetLatestOptions w)) \<notin> set recognizedLogLevels"
  shows "\<exists>evs. start w s = (Inl (Error (''Invalid log level ''
            @ logLevel (languageServerOptions (GetLatestOptions w)))), s\<lparr>events := events s @ evs\<rparr>)
          \<and> spawned evs = []"
  using assms
  by (auto simp: start_def Let_def GetTraceLevel_unrecognized appendLine_def split: list.splits)

text \<open>
  Past the log level, \<open>start\<close> creates the client, launches, and ends in
  \<open>registerRazor\<close>.
\<close>

lemma start_launches:
  assumes "getHostExecutableInfo w = Inr v"
    and "logLevel (languageServerOptions (GetLatestOptions w)) \<in> set recognizedLogLevels"
  shows "\<exists>evs lev. start w s =
      registerRazor (created s)
        (clientLaunch w (created s)
           (startServer w (case findFiles w of [] \<Rightarrow> None | u # _ \<Rightarrow> Some u)
              (Some (logLevel (languageServerOptions (GetLatestOptions w)))))
           (setTraceWhenRunning lev)
           (s\<lparr>languageClient := Some (created s), created := Suc (created s),
              clients := clients s @ [created s], events := events s @ evs\<rparr>))
      \<and> spawned evs = []"
  using assms
  by (auto simp: start_def Let_def GetTraceLevel_recognized appendLine_def split: list.splits)

lemma start_frame:
  "\<exists>evs. events (snd (start w s)) = events s @ evs"
proof (cases "getHostExecutableInfo w")
  case (Inl e)
  then show ?thesis by (simp add: start_early)
next
  case (Inr v)
  show ?thesis
  proof (cases "logLevel (languageServerOptions (GetLatestOptions w)) \<in> set recognizedLogLevels")
    case False
    from start_invalid [OF Inr False, of s] show ?thesis by auto
  next
    case True
    from start_launches [OF Inr True, of s] obtain evs lev s5 s6 where
      st: "start w s = registerRazor (created s) s6"
      and s6: "s6 = clientLaunch w (created s)
           (startServer w (case findFiles w of [] \<Rightarrow> None | u # _ \<Rightarrow> Some u)
              (Some (logLevel (languageServerOptions (GetLatestOptions w)))))
           (setTraceWhenRunning lev) s5"
      and s5: "s5 = s\<lparr>languageClient := Some (created s), created := Suc (created s),
            clients := clients s @ [created s], events := events s @ evs\<rparr>"
      by blast
    obtain r s7 where s7: "registerRazor (created s) s6 = (r, s7)"
      by fastforce
    from registerRazor_frame [OF s7] clientLaunch_frame [OF s6] s5 st s7 show ?thesis
      by auto
  qed
qed

lemma start_singleHandle:
  assumes "languageClient s = None" and "singleHandle s"
  shows "singleHandle (snd (start w s))"
proof (cases "getHostExecutableInfo w")
  case (Inl e)
  then show ?thesis using assms by (simp add: start_early)
next
  case (Inr v)
  show ?thesis
  proof (cases "logLevel (languageServerOptions (GetLatestOptions w)) \<in> set recognizedLogLevels")
    case False
    from start_invalid [OF Inr False, of s] assms show ?thesis
      by (auto simp: singleHandle_def)
  next
    case True
    from start_launches [OF Inr True, of s] obtain evs lev s5 s6 where
      st: "start w s = registerRazor (created s) s6"
      and s6: "s6 = clientLaunch w (created s)
           (startServer w (case findFiles w of [] \<Rightarrow> None | u # _ \<Rightarrow> Some u)
              (Some (logLevel (languageServerOptions (GetLatestOptions w)))))
           (setTraceWhenRunning lev) s5"
      and s5: "s5 = s\<lparr>languageClient := Some (created s), created := Suc (created s),
            clients := clients s @ [created s], events := events s @ evs\<rparr>"
      by blast
    obtain r s7 where s7: "registerRazor (created s) s6 = (r, s7)"
      by fastforce
    from registerRazor_frame [OF s7] clientLaunch_frame [OF s6] s5 st s7 assms show ?thesis
      by (auto simp: singleHandle_def)
  qed
qed

lemma stop_singleHandle: "singleHandle s \<Longrightarrow> singleHandle (snd (stop w s))"
  by (auto simp: stop_def singleHandle_def Let_def split: option.splits)

lemma stop_resolved_handle: "stop w s = (Inr u, s1) \<Longrightarrow> languageClient s1 = None"
  by (auto simp: stop_def Let_def split: option.splits if_splits)

subsection \<open>The log level\<close>

text \<open>
  C1. On each of the seven recognized log levels \<open>GetTraceLevel\<close> returns the trace
  verbosity of the table (\<open>Trace\<close> gives \<open>Verbose\<close>, \<open>Debug\<close> gives \<open>Messages\<close>, the
  other five give \<open>Off\<close>) and changes nothing. On any other string it throws
  \<open>Invalid log level ...\<close>; then \<open>start\<close>, which calls it on line 110, rejects, with
  that error when the dotnet host was resolved, and it has created no client and
  spawned no process.
\<close>

theorem GetTraceLevel_mapping:
  "(level \<in> set recognizedLogLevels \<longrightarrow>
      GetTraceLevel level s =
        (Inr (if level = ''Trace'' then Verbose else if level = ''Debug'' then Messages else Off), s))
   \<and> (level \<notin> set recognizedLogLevels \<longrightarrow>
        fst (GetTraceLevel level s) = Inl (Error (''Invalid log level '' @ level))
        \<and> (logLevel (languageServerOptions (GetLatestOptions w)) = level \<longrightarrow>
             (\<exists>e. fst (start w s) = Inl e)
             \<and> (\<forall>v. getHostExecutableInfo w = Inr v \<longrightarrow>
                   fst (start w s) = Inl (Error (''Invalid log level '' @ level)))
             \<and> spawned (events (snd (start w s))) = spawned (events s)
             \<and> languageClient (snd (start w s)) = languageClient s))"
proof (intro conjI impI allI)
  assume "level \<in> set recognizedLogLevels"
  then show "GetTraceLevel level s =
        (Inr (if level = ''Trace'' then Verbose else if level = ''Debug'' then Messages else Off), s)"
    by (rule GetTraceLevel_recognized)
next
  assume "level \<notin> set recognizedLogLevels"
  then show "fst (GetTraceLevel level s) = Inl (Error (''Invalid log level '' @ level))"
    by (simp add: GetTraceLevel_unrecognized)
next
  assume bad: "level \<notin> set recognizedLogLevels"
    and lvl: "logLevel (languageServerOptions (GetLatestOptions w)) = level"
  show "\<exists>e. fst (start w s) = Inl e"
    using bad lvl
    by (auto simp: start_def Let_def GetTraceLevel_unrecognized split: sum.splits)
  show "spawned (events (snd (start w s))) = spawned (events s)"
    using bad lvl
    by (auto simp: start_def Let_def GetTraceLevel_unrecognized appendLine_def spawned_append
        split: sum.splits list.splits)
  show "languageClient (snd (start w s)) = languageClient s"
    using bad lvl
    by (auto simp: start_def Let_def GetTraceLevel_unrecognized appendLine_def
        split: sum.splits list.splits)
next
  fix v
  assume "level \<notin> set recognizedLogLevels"
    and "logLevel (languageServerOptions (GetLatestOptions w)) = level"
    and "getHostExecutableInfo w = Inr v"
  then show "fst (start w s) = Inl (Error (''Invalid log level '' @ level))"
    by (auto simp: start_def Let_def GetTraceLevel_unrecognized)
qed

theorem GetTraceLevel_mapping_witness:
  "GetTraceLevel ''Trace'' initialServer = (Inr Verbose, initialServer)
   \<and> GetTraceLevel ''Debug'' initialServer = (Inr Messages, initialServer)
   \<and> GetTraceLevel ''None'' initialServer = (Inr Off, initialServer)
   \<and> fst (GetTraceLevel ''Verbose'' initialServer) = Inl (Error ''Invalid log level Verbose'')
   \<and> fst (start (withLogLevel ''Verbose'' exampleWorld) initialServer)
       = Inl (Error ''Invalid log level Verbose'')
   \<and> spawned (events (snd (start (withLogLevel ''Verbose'' exampleWorld) initialServer))) = []"
  using GetTraceLevel_mapping [of "''Trace''" initialServer exampleWorld]
    GetTraceLevel_mapping [of "''Debug''" initialServer exampleWorld]
    GetTraceLevel_mapping [of "''None''" initialServer exampleWorld]
    GetTraceLevel_mapping [of "''Verbose''" initialServer "withLogLevel ''Verbose'' exampleWorld"]
  by (simp add: recognizedLogLevels_def withLogLevel_def exampleWorld_def initialServer_def)

subsection \<open>The launch arguments\<close>

text \<open>
  C2. In the argument list of lines 207 to 229: when a pipe name was obtained (a
  non-empty string, as the test on line 218 reads it) there is no \<open>--solutionPath\<close>
  flag; when none was obtained and a solution was found there is exactly one, and its
  value is the solution's \<open>fsPath\<close>. \<open>startServer\<close> builds the list from the name
  that \<open>getBrokeredServicePipeName\<close> returned (see \<open>startServer_spawns\<close>).
\<close>

theorem buildArgs_solutionPath:
  "(obtained pipe \<longrightarrow> flagValues ''--solutionPath'' (buildArgs d l pipe sol st) = [])
   \<and> (\<not> obtained pipe \<longrightarrow> sol = Some u \<longrightarrow>
        flagValues ''--solutionPath'' (buildArgs d l pipe sol st) = [Some (fsPath u)])"
  by (cases d; cases l; cases pipe; cases sol; cases st)
     (simp_all add: buildArgs_def flagValues_def obtained_def truthy_def Let_def)

theorem buildArgs_solutionPath_witness:
  "flagValues ''--solutionPath''
      (buildArgs True (Some ''Debug'') (Some ''pipe-42'') (Some exampleSolution) None) = []
   \<and> flagValues ''--solutionPath''
      (buildArgs True (Some ''Debug'') None (Some exampleSolution) None) = [Some ''/work/App.sln'']"
  using buildArgs_solutionPath [of "Some ''pipe-42''" True "Some ''Debug''" "Some exampleSolution" None exampleSolution]
    buildArgs_solutionPath [of None True "Some ''Debug''" "Some exampleSolution" None exampleSolution]
  by (simp add: obtained_def truthy_def exampleSolution_def)

text \<open>
  On the tokens themselves: when no value in the list is spelled \<open>--solutionPath\<close>,
  the token is absent in the first case and occurs once, with the path after it, in the
  second.
\<close>

lemma buildArgs_tokens:
  assumes "l \<noteq> Some ''--solutionPath''" and "pipe \<noteq> Some ''--solutionPath''"
    and "st \<noteq> Some ''--solutionPath''"
  shows "obtained pipe \<Longrightarrow> ''--solutionPath'' \<notin> set (buildArgs d l pipe sol st)"
    and "\<not> obtained pipe \<Longrightarrow> sol = Some u \<Longrightarrow> fsPath u \<noteq> ''--solutionPath'' \<Longrightarrow>
           count_list (buildArgs d l pipe sol st) ''--solutionPath'' = 1
           \<and> (\<exists>pre post. buildArgs d l pipe sol st = pre @ [''--solutionPath'', fsPath u] @ post)"
proof -
  show "obtained pipe \<Longrightarrow> ''--solutionPath'' \<notin> set (buildArgs d l pipe sol st)"
    using assms
    by (cases d; cases l; cases pipe; cases sol; cases st)
       (simp_all add: buildArgs_def obtained_def truthy_def Let_def)
next
  assume np: "\<not> obtained pipe" and sol: "sol = Some u" and u: "fsPath u \<noteq> ''--solutionPath''"
  let ?pre = "(if d then [''--debug''] else [])
      @ (case l of Some x \<Rightarrow> if truthy x then [''--logLevel'', x] else [] | None \<Rightarrow> [])"
  let ?post = "(case st of Some p \<Rightarrow> if truthy p then [''--starredCompletionComponentPath'', p] else []
      | None \<Rightarrow> [])"
  have shape: "buildArgs d l pipe sol st = ?pre @ [''--solutionPath'', fsPath u] @ ?post"
    using np sol
    by (cases d; cases l; cases pipe; cases st)
       (simp_all add: buildArgs_def obtained_def truthy_def Let_def)
  have "count_list (buildArgs d l pipe sol st) ''--solutionPath'' = 1"
    unfolding shape using assms u
    by (cases d; cases l; cases st) (simp_all add: truthy_def)
  with shape show "count_list (buildArgs d l pipe sol st) ''--solutionPath'' = 1
           \<and> (\<exists>pre post. buildArgs d l pipe sol st = pre @ [''--solutionPath'', fsPath u] @ post)"
    by blast
qed

subsection \<open>The spawned command\<close>

text \<open>Past the check of the path \<open>startServer\<close> fails exactly where a lookup at C# Devkit fails.\<close>

lemma startServer_lookup_fails:
  assumes "existsSync w (resolveServerPath w)"
    and "fst (waitForCSharpDevkitActivationAndGetExports w s) = Inl e
         \<or> (\<exists>ex s1. waitForCSharpDevkitActivationAndGetExports w s = (Inr ex, s1)
                \<and> getBrokeredServicePipeName s1 ex = Inl e)"
  shows "fst (startServer w sol lvl s) = Inl e
         \<and> spawned (events (snd (startServer w sol lvl s))) = spawned (events s)"
proof (cases "waitForCSharpDevkitActivationAndGetExports w s")
  case (Pair r s1)
  obtain l where l: "events s1 = events s @ [AppendLine l]"
    using waitFor_cases [OF Pair] by blast
  from assms Pair l show ?thesis
    by (cases r) (auto simp: startServer_def Let_def spawned_append)
qed

lemma startServer_spawns:
  assumes "existsSync w (resolveServerPath w)"
    and "waitForCSharpDevkitActivationAndGetExports w s = (Inr ex, s1)"
    and "getBrokeredServicePipeName s1 ex = Inr pipe"
    and "args = buildArgs (waitForDebugger (commonOptions (GetLatestOptions w))) lvl pipe sol
                  (getStarredCompletionComponentPath s1 ex)"
    and "child = (if endsWith (resolveServerPath w) ''.dll''
                  then \<lparr>command = ''dotnet'', argv = resolveServerPath w # args\<rparr>
                  else \<lparr>command = resolveServerPath w, argv = args\<rparr>)"
  shows "fst (startServer w sol lvl s) = Inr child
         \<and> events (snd (startServer w sol lvl s))
             = events s1 @ [AppendLine (''Starting server at '' @ resolveServerPath w), Spawn child]
         \<and> spawned (events (snd (startServer w sol lvl s))) = spawned (events s) @ [child]"
proof -
  obtain l where l: "events s1 = events s @ [AppendLine l]"
    using waitFor_cases [OF assms(2)] by blast
  have run: "startServer w sol lvl s =
      (Inr child, s1\<lparr>events := events s1
         @ [AppendLine (''Starting server at '' @ resolveServerPath w), Spawn child]\<rparr>)"
    using assms by (simp add: startServer_def Let_def appendLine_def)
  show ?thesis
    by (simp add: run l spawned_append)
qed

text \<open>
  C3. When the resolved server path exists, \<open>startServer\<close> does one of two things.
  Either a lookup at C# Devkit fails (its activation, or the pipe name), and then
  \<open>startServer\<close> fails with that error and spawns nothing. Or it returns the process
  it spawned and spawns that one only: for a path ending in \<open>.dll\<close> the command
  \<open>dotnet\<close> with the path before the built arguments, for any other path the path
  itself with the built arguments. The built arguments are those of lines 207 to 229
  for the pipe name and the component path that the lookups gave.
\<close>

theorem startServer_spawn:
  assumes "existsSync w (resolveServerPath w)"
  shows "(\<exists>e. (fst (waitForCSharpDevkitActivationAndGetExports w s) = Inl e
               \<or> (\<exists>ex s1. waitForCSharpDevkitActivationAndGetExports w s = (Inr ex, s1)
                      \<and> getBrokeredServicePipeName s1 ex = Inl e))
             \<and> fst (startServer w sol lvl s) = Inl e
             \<and> spawned (events (snd (startServer w sol lvl s))) = spawned (events s))
         \<or> (\<exists>ex s1 pipe.
               waitForCSharpDevkitActivationAndGetExports w s = (Inr ex, s1)
               \<and> getBrokeredServicePipeName s1 ex = Inr pipe
               \<and> (let args = buildArgs (waitForDebugger (commonOptions (GetLatestOptions w))) lvl
                                pipe sol (getStarredCompletionComponentPath s1 ex);
                       child = (if endsWith (resolveServerPath w) ''.dll''
                                then \<lparr>command = ''dotnet'', argv = resolveServerPath w # args\<rparr>
                                else \<lparr>command = resolveServerPath w, argv = args\<rparr>)
                   in fst (startServer w sol lvl s) = Inr child
                      \<and> events (snd (startServer w sol lvl s))
                          = events s1 @ [AppendLine (''Starting server at '' @ resolveServerPath w),
                                         Spawn child]
                      \<and> spawned (events (snd (startServer w sol lvl s)))
                          = spawned (events s) @ [child]))"
proof (cases "waitForCSharpDevkitActivationAndGetExports w s")
  case (Pair r s1)
  show ?thesis
  proof (cases r)
    case (Inl e)
    with Pair have "fst (waitForCSharpDevkitActivationAndGetExports w s) = Inl e"
      by simp
    with startServer_lookup_fails [OF assms, of s e sol lvl] show ?thesis
      by blast
  next
    case (Inr ex)
    note lookup = Pair [unfolded Inr]
    show ?thesis
    proof (cases "getBrokeredServicePipeName s1 ex")
      case (Inl e)
      with lookup startServer_lookup_fails [OF assms, of s e sol lvl] show ?thesis
        by blast
    next
      case (Inr pipe)
      from startServer_spawns [where lvl = lvl and sol = sol, OF assms lookup Inr refl refl] lookup Inr
      show ?thesis
        unfolding Let_def by blast
    qed
  qed
qed

theorem startServer_spawn_witness:
  "fst (startServer exampleWorld (Some exampleSolution) (Some ''Debug'') initialServer)
     = Inr \<lparr>command = ''dotnet'',
            argv = [''/opt/roslyn/Microsoft.CodeAnalysis.LanguageServer.dll'',
                    ''--debug'', ''--logLevel'', ''Debug'', ''--solutionPath'', ''/work/App.sln'']\<rparr>
   \<and> fst (startServer (withServerPath [] exampleWorld) (Some exampleSolution) (Some ''Debug'')
            initialServer)
     = Inr \<lparr>command = ''/ext/.roslyn/Microsoft.CodeAnalysis.LanguageServer'',
            argv = [''--debug'', ''--logLevel'', ''Debug'', ''--solutionPath'', ''/work/App.sln'']\<rparr>
   \<and> fst (startServer (exampleWorld\<lparr>getExtension := Some ActivationRejects\<rparr>)
            (Some exampleSolution) (Some ''Debug'') initialServer)
     = Inl (Rejected ''activate'')
   \<and> spawned (events (snd (startServer (exampleWorld\<lparr>getExtension := Some ActivationRejects\<rparr>)
            (Some exampleSolution) (Some ''Debug'') initialServer))) = []"
proof -
  let ?s1 = "(appendLine ''Activating C# standalone...'' initialServer)
               \<lparr>wasActivatedWithCSharpDevkit := Some False\<rparr>"
  let ?s2 = "(appendLine ''Activating C# + Devkit...'' initialServer)
               \<lparr>wasActivatedWithCSharpDevkit := Some True\<rparr>"
  let ?w3 = "exampleWorld\<lparr>getExtension := Some ActivationRejects\<rparr>"
  have dll: "resolveServerPath exampleWorld = ''/opt/roslyn/Microsoft.CodeAnalysis.LanguageServer.dll''"
    by (simp add: resolveServerPath_def exampleWorld_def truthy_def)
  have exe: "resolveServerPath (withServerPath [] exampleWorld)
      = ''/ext/.roslyn/Microsoft.CodeAnalysis.LanguageServer''"
    by (simp add: resolveServerPath_def withServerPath_def exampleWorld_def truthy_def
        getServerFileName_def)
  have dll3: "resolveServerPath ?w3 = ''/opt/roslyn/Microsoft.CodeAnalysis.LanguageServer.dll''"
    by (simp add: resolveServerPath_def exampleWorld_def truthy_def)
  have e1: "existsSync exampleWorld (resolveServerPath exampleWorld)"
    unfolding dll by (simp add: exampleWorld_def)
  have e2: "existsSync (withServerPath [] exampleWorld) (resolveServerPath (withServerPath [] exampleWorld))"
    unfolding exe by (simp add: exampleWorld_def withServerPath_def)
  have e3: "existsSync ?w3 (resolveServerPath ?w3)"
    unfolding dll3 by (simp add: exampleWorld_def)
  have w1: "waitForCSharpDevkitActivationAndGetExports exampleWorld initialServer = (Inr Falsy, ?s1)"
    by (simp add: waitForCSharpDevkitActivationAndGetExports_def exampleWorld_def)
  have w2: "waitForCSharpDevkitActivationAndGetExports (withServerPath [] exampleWorld) initialServer
      = (Inr Falsy, ?s1)"
    by (simp add: waitForCSharpDevkitActivationAndGetExports_def exampleWorld_def withServerPath_def)
  have w3: "waitForCSharpDevkitActivationAndGetExports ?w3 initialServer
      = (Inl (Rejected ''activate''), ?s2)"
    by (simp add: waitForCSharpDevkitActivationAndGetExports_def)
  have p: "getBrokeredServicePipeName ?s1 Falsy = Inr None"
    by (simp add: getBrokeredServicePipeName_def)
  have st: "getStarredCompletionComponentPath ?s1 Falsy = None"
    by (simp add: getStarredCompletionComponentPath_def)
  have d1: "waitForDebugger (commonOptions (GetLatestOptions exampleWorld))"
    by (simp add: exampleWorld_def)
  have d2: "waitForDebugger (commonOptions (GetLatestOptions (withServerPath [] exampleWorld)))"
    by (simp add: exampleWorld_def withServerPath_def)
  have a: "fst (startServer exampleWorld (Some exampleSolution) (Some ''Debug'') initialServer)
      = Inr \<lparr>command = ''dotnet'',
             argv = ''/opt/roslyn/Microsoft.CodeAnalysis.LanguageServer.dll''
               # buildArgs True (Some ''Debug'') None (Some exampleSolution) None\<rparr>"
    using startServer_spawn [OF e1, of initialServer "Some exampleSolution" "Some ''Debug''"]
    unfolding dll w1
    by (simp add: p st d1 endsWith_def Let_def)
  have b: "fst (startServer (withServerPath [] exampleWorld) (Some exampleSolution) (Some ''Debug'')
            initialServer)
      = Inr \<lparr>command = ''/ext/.roslyn/Microsoft.CodeAnalysis.LanguageServer'',
             argv = buildArgs True (Some ''Debug'') None (Some exampleSolution) None\<rparr>"
    using startServer_spawn [OF e2, of initialServer "Some exampleSolution" "Some ''Debug''"]
    unfolding exe w2
    by (simp add: p st d2 endsWith_def Let_def)
  have c: "fst (startServer ?w3 (Some exampleSolution) (Some ''Debug'') initialServer)
             = Inl (Rejected ''activate'')
           \<and> spawned (events (snd (startServer ?w3 (Some exampleSolution) (Some ''Debug'')
                 initialServer))) = []"
    using startServer_spawn [OF e3, of initialServer "Some exampleSolution" "Some ''Debug''"]
    unfolding w3
    by (auto simp: initialServer_def)
  have args: "buildArgs True (Some ''Debug'') None (Some exampleSolution) None
      = [''--debug'', ''--logLevel'', ''Debug'', ''--solutionPath'', ''/work/App.sln'']"
    by (simp add: buildArgs_def truthy_def exampleSolution_def)
  show ?thesis
    using a b c unfolding args by simp
qed

subsection \<open>A server path that does not exist\<close>

text \<open>Whether \<open>start\<close> resolves or rejects, and with what, does not depend on the file system.\<close>

lemma start_outcome_existsSync:
  "fst (start (w\<lparr>existsSync := f\<rparr>) s) = fst (start w s)"
proof (cases "getHostExecutableInfo w")
  case (Inl e)
  then show ?thesis by (simp add: start_early)
next
  case (Inr v)
  let ?w = "w\<lparr>existsSync := f\<rparr>"
  have v': "getHostExecutableInfo ?w = Inr v"
    using Inr by simp
  show ?thesis
  proof (cases "logLevel (languageServerOptions (GetLatestOptions w)) \<in> set recognizedLogLevels")
    case False
    then have False': "logLevel (languageServerOptions (GetLatestOptions ?w)) \<notin> set recognizedLogLevels"
      by simp
    from start_invalid [OF Inr False, of s] start_invalid [OF v' False', of s] show ?thesis
      by auto
  next
    case True
    then have True': "logLevel (languageServerOptions (GetLatestOptions ?w)) \<in> set recognizedLogLevels"
      by simp
    from start_launches [OF Inr True, of s] obtain evs lev s5 s6 where
      st: "start w s = registerRazor (created s) s6"
      and s6: "s6 = clientLaunch w (created s)
           (startServer w (case findFiles w of [] \<Rightarrow> None | u # _ \<Rightarrow> Some u)
              (Some (logLevel (languageServerOptions (GetLatestOptions w)))))
           (setTraceWhenRunning lev) s5"
      and s5: "s5 = s\<lparr>languageClient := Some (created s), created := Suc (created s),
            clients := clients s @ [created s], events := events s @ evs\<rparr>"
      by blast
    from start_launches [OF v' True', of s] obtain evs' lev' t5 t6 where
      st': "start ?w s = registerRazor (created s) t6"
      and t6: "t6 = clientLaunch ?w (created s)
           (startServer ?w (case findFiles ?w of [] \<Rightarrow> None | u # _ \<Rightarrow> Some u)
              (Some (logLevel (languageServerOptions (GetLatestOptions ?w)))))
           (setTraceWhenRunning lev') t5"
      and t5: "t5 = s\<lparr>languageClient := Some (created s), created := Suc (created s),
            clients := clients s @ [created s], events := events s @ evs'\<rparr>"
      by blast
    have "commands s6 = commands s"
      using clientLaunch_frame [OF s6] s5 by simp
    moreover have "commands t6 = commands s"
      using clientLaunch_frame [OF t6] t5 by simp
    ultimately show ?thesis
      using registerRazor_outcome [of t6 s6 "created s"] st st' by simp
  qed
qed

text \<open>
  C4. When the resolved server path does not exist, \<open>startServer\<close> throws
  \<open>Cannot find language server in path ...\<close> before it does anything else, and
  \<open>start\<close> spawns no process. \<open>start\<close> does not await the client's start (line 165;
  the comment on lines 200 to 202 says why the launch is kept out of the activation):
  its own outcome is what it is when the path exists, and once it has created the
  client it holds it, the not-found error being the failure of that client's start.
\<close>

theorem startServer_not_found:
  assumes "\<not> existsSync w (resolveServerPath w)"
  shows "startServer w sol lvl s = (Inl (Error (notFoundMessage (resolveServerPath w))), s)
    \<and> spawned (events (snd (start w s))) = spawned (events s)
    \<and> (\<forall>f. fst (start w s) = fst (start (w\<lparr>existsSync := f\<rparr>) s))
    \<and> (\<forall>v. getHostExecutableInfo w = Inr v \<longrightarrow>
          logLevel (languageServerOptions (GetLatestOptions w)) \<in> set recognizedLogLevels \<longrightarrow>
            languageClient (snd (start w s)) = Some (created s)
            \<and> ClientStartFailed (created s) (Error (notFoundMessage (resolveServerPath w)))
                \<in> set (events (snd (start w s))))"
proof (intro conjI allI impI)
  show "startServer w sol lvl s = (Inl (Error (notFoundMessage (resolveServerPath w))), s)"
    using assms by (rule startServer_missing)
next
  show "spawned (events (snd (start w s))) = spawned (events s)"
  proof (cases "getHostExecutableInfo w")
    case (Inl e)
    then show ?thesis by (simp add: start_early)
  next
    case (Inr v)
    show ?thesis
    proof (cases "logLevel (languageServerOptions (GetLatestOptions w)) \<in> set recognizedLogLevels")
      case False
      from start_invalid [OF Inr False, of s] show ?thesis
        by (auto simp: spawned_append)
    next
      case True
      from start_launches [OF Inr True, of s] obtain evs lev s6 where
        st: "start w s = registerRazor (created s) s6"
        and s6: "s6 = clientLaunch w (created s)
           (startServer w (case findFiles w of [] \<Rightarrow> None | u # _ \<Rightarrow> Some u)
              (Some (logLevel (languageServerOptions (GetLatestOptions w)))))
           (setTraceWhenRunning lev)
           (s\<lparr>languageClient := Some (created s), created := Suc (created s),
              clients := clients s @ [created s], events := events s @ evs\<rparr>)"
        and evs: "spawned evs = []"
        by blast
      have ev6: "spawned (events s6) = spawned (events s)"
        unfolding s6 by (simp add: clientLaunch_def startServer_missing [OF assms] spawned_append evs)
      obtain r s7 where s7: "registerRazor (created s) s6 = (r, s7)"
        by fastforce
      from registerRazor_frame [OF s7] ev6 st s7 show ?thesis
        by (auto simp: spawned_append)
    qed
  qed
next
  fix f
  show "fst (start w s) = fst (start (w\<lparr>existsSync := f\<rparr>) s)"
    by (simp add: start_outcome_existsSync)
next
  fix v
  assume v: "getHostExecutableInfo w = Inr v"
    and ok: "logLevel (languageServerOptions (GetLatestOptions w)) \<in> set recognizedLogLevels"
  from start_launches [OF v ok, of s] obtain evs lev s6 where
    st: "start w s = registerRazor (created s) s6"
    and s6: "s6 = clientLaunch w (created s)
       (startServer w (case findFiles w of [] \<Rightarrow> None | u # _ \<Rightarrow> Some u)
          (Some (logLevel (languageServerOptions (GetLatestOptions w)))))
       (setTraceWhenRunning lev)
       (s\<lparr>languageClient := Some (created s), created := Suc (created s),
          clients := clients s @ [created s], events := events s @ evs\<rparr>)"
    by blast
  have h6: "languageClient s6 = Some (created s)"
    unfolding s6 by (simp add: clientLaunch_def startServer_missing [OF assms])
  have ev6: "ClientStartFailed (created s) (Error (notFoundMessage (resolveServerPath w)))
      \<in> set (events s6)"
    unfolding s6 by (simp add: clientLaunch_def startServer_missing [OF assms])
  obtain r s7 where s7: "registerRazor (created s) s6 = (r, s7)"
    by fastforce
  from registerRazor_frame [OF s7] h6 st s7
  show "languageClient (snd (start w s)) = Some (created s)"
    by simp
  from registerRazor_frame [OF s7] ev6 st s7
  show "ClientStartFailed (created s) (Error (notFoundMessage (resolveServerPath w)))
      \<in> set (events (snd (start w s)))"
    by auto
qed

theorem startServer_not_found_witness:
  "startServer (withServerPath ''/nowhere/server'' exampleWorld) (Some exampleSolution)
       (Some ''Debug'') initialServer
     = (Inl (Error (notFoundMessage ''/nowhere/server'')), initialServer)
   \<and> spawned (events (snd (start (withServerPath ''/nowhere/server'' exampleWorld) initialServer))) = []
   \<and> fst (start (withServerPath ''/nowhere/server'' exampleWorld) initialServer)
       = fst (start ((withServerPath ''/nowhere/server'' exampleWorld)\<lparr>existsSync := \<lambda>p. True\<rparr>)
               initialServer)
   \<and> languageClient (snd (start (withServerPath ''/nowhere/server'' exampleWorld) initialServer))
       = Some 0
   \<and> ClientStartFailed 0 (Error (notFoundMessage ''/nowhere/server''))
       \<in> set (events (snd (start (withServerPath ''/nowhere/server'' exampleWorld) initialServer)))"
proof -
  let ?w = "withServerPath ''/nowhere/server'' exampleWorld"
  have p: "resolveServerPath ?w = ''/nowhere/server''"
    by (simp add: resolveServerPath_def withServerPath_def exampleWorld_def truthy_def)
  have missing: "\<not> existsSync ?w (resolveServerPath ?w)"
    unfolding p by (simp add: withServerPath_def exampleWorld_def)
  have v: "getHostExecutableInfo ?w = Inr ''7.0.100''"
    by (simp add: withServerPath_def exampleWorld_def)
  have ok: "logLevel (languageServerOptions (GetLatestOptions ?w)) \<in> set recognizedLogLevels"
    by (simp add: withServerPath_def exampleWorld_def recognizedLogLevels_def)
  have c: "created initialServer = 0" and e: "events initialServer = []"
    by (simp_all add: initialServer_def)
  show ?thesis
    using startServer_not_found [OF missing, of "Some exampleSolution" "Some ''Debug''" initialServer]
      v ok
    unfolding p c e by simp
qed

text \<open>
  With the server path option set to a file that does not exist, \<open>start\<close> resolves.
\<close>

theorem start_resolves_without_server_counterexample:
  "\<not> existsSync (withServerPath ''/nowhere/server'' exampleWorld)
        (resolveServerPath (withServerPath ''/nowhere/server'' exampleWorld))
   \<and> fst (start (withServerPath ''/nowhere/server'' exampleWorld) initialServer) = Inr ()"
  by (simp add: start_def startServer_def clientLaunch_def resolveServerPath_def GetTraceLevel_def
      registerRazor_def registerCommand_def roslynDidOpenCommand_def roslynDidChangeCommand_def
      roslynDidCloseCommand_def
      withServerPath_def exampleWorld_def initialServer_def truthy_def appendLine_def Let_def)

subsection \<open>Restart\<close>

text \<open>
  C5. \<open>restart\<close> runs \<open>stop\<close> first. When \<open>stop\<close> rejects, \<open>restart\<close> rejects with
  the same error in the state \<open>stop\<close> left, so \<open>start\<close> was not run and nothing was
  spawned. When \<open>stop\<close> resolves, \<open>restart\<close> is \<open>start\<close> run in the state after it:
  the handle is cleared, the client that was held has been asked to stop and to dispose
  with the timeout of 10000 ms, and everything \<open>start\<close> does comes after these events.
  So a server whose only live client is the one it holds stays so over \<open>restart\<close>,
  with no live client between the two steps and at most one after them.
\<close>

theorem restart_stops_first:
  "(\<forall>e s1. stop w s = (Inl e, s1) \<longrightarrow>
       restart w s = (Inl e, s1) \<and> spawned (events s1) = spawned (events s))
   \<and> (\<forall>u s1. stop w s = (Inr u, s1) \<longrightarrow>
         restart w s = start w s1
         \<and> languageClient s1 = None
         \<and> (\<forall>c. languageClient s = Some c \<longrightarrow>
               events s1 = events s @ [ClientStop c 10000, ClientDispose c 10000])
         \<and> (singleHandle s \<longrightarrow> clients s1 = [])
         \<and> (\<exists>evs. events (snd (restart w s)) = events s1 @ evs))
   \<and> (singleHandle s \<longrightarrow>
         singleHandle (snd (restart w s)) \<and> length (clients (snd (restart w s))) \<le> 1)"
proof (intro conjI allI impI)
  fix e s1
  assume rej: "stop w s = (Inl e, s1)"
  then show "restart w s = (Inl e, s1)"
    by (simp add: restart_def)
  from rej show "spawned (events s1) = spawned (events s)"
    by (auto simp: stop_def Let_def spawned_append split: option.splits if_splits)
next
  fix u s1
  assume res: "stop w s = (Inr u, s1)"
  then show r: "restart w s = start w s1"
    by (simp add: restart_def)
  from res show "languageClient s1 = None"
    by (rule stop_resolved_handle)
  from start_frame [of w s1] show "\<exists>evs. events (snd (restart w s)) = events s1 @ evs"
    by (simp add: r)
  {
    fix c
    assume "languageClient s = Some c"
    with res show "events s1 = events s @ [ClientStop c 10000, ClientDispose c 10000]"
      by (auto simp: stop_def Let_def stopTimeout_def split: if_splits)
  }
  {
    assume "singleHandle s"
    with res show "clients s1 = []"
      by (auto simp: stop_def Let_def singleHandle_def split: option.splits if_splits)
  }
next
  assume inv: "singleHandle s"
  show sh: "singleHandle (snd (restart w s))"
  proof (cases "stop w s")
    case (Pair r s1)
    have inv1: "singleHandle s1"
      using stop_singleHandle [OF inv, of w] Pair by simp
    show ?thesis
    proof (cases r)
      case (Inl e)
      with Pair inv1 show ?thesis by (simp add: restart_def)
    next
      case (Inr u)
      with Pair have "languageClient s1 = None"
        by (auto dest: stop_resolved_handle)
      from start_singleHandle [OF this inv1, of w] Pair Inr show ?thesis
        by (simp add: restart_def)
    qed
  qed
  then show "length (clients (snd (restart w s))) \<le> 1"
    by (auto simp: singleHandle_def split: option.splits)
qed

theorem restart_stops_first_witness:
  "restart (exampleWorld\<lparr>stopResolves := False\<rparr>) runningServer
     = (Inl (Rejected ''stop''), runningServer\<lparr>events := [ClientStop 0 10000]\<rparr>)
   \<and> restart exampleWorld runningServer
     = start exampleWorld (runningServer\<lparr>events := [ClientStop 0 10000, ClientDispose 0 10000],
          languageClient := None, clients := []\<rparr>)
   \<and> singleHandle (snd (restart exampleWorld runningServer))
   \<and> length (clients (snd (restart exampleWorld runningServer))) \<le> 1"
proof -
  have rej: "stop (exampleWorld\<lparr>stopResolves := False\<rparr>) runningServer
      = (Inl (Rejected ''stop''), runningServer\<lparr>events := [ClientStop 0 10000]\<rparr>)"
    by (simp add: stop_def runningServer_def exampleWorld_def stopTimeout_def)
  have res: "stop exampleWorld runningServer
      = (Inr (), runningServer\<lparr>events := [ClientStop 0 10000, ClientDispose 0 10000],
          languageClient := None, clients := []\<rparr>)"
    by (simp add: stop_def runningServer_def exampleWorld_def stopTimeout_def)
  have inv: "singleHandle runningServer"
    by (simp add: singleHandle_def runningServer_def)
  note thm1 = restart_stops_first [of "exampleWorld\<lparr>stopResolves := False\<rparr>" runningServer]
  note thm2 = restart_stops_first [of exampleWorld runningServer]
  have a: "restart (exampleWorld\<lparr>stopResolves := False\<rparr>) runningServer
     = (Inl (Rejected ''stop''), runningServer\<lparr>events := [ClientStop 0 10000]\<rparr>)"
    using thm1 rej by blast
  have b: "restart exampleWorld runningServer
     = start exampleWorld (runningServer\<lparr>events := [ClientStop 0 10000, ClientDispose 0 10000],
          languageClient := None, clients := []\<rparr>)"
    using thm2 res by blast
  have c: "singleHandle (snd (restart exampleWorld runningServer))
      \<and> length (clients (snd (restart exampleWorld runningServer))) \<le> 1"
    using thm2 inv by blast
  show ?thesis
    using a b c by blast
qed

subsection \<open>The pipe name of C# Devkit\<close>

text \<open>
  C7. When C# Devkit is installed and its activation gives an object without the
  property \<open>getBrokeredServiceServerPipeName\<close>, \<open>getBrokeredServicePipeName\<close> throws
  \<open>C# Devkit is installed but missing expected export ...\<close>, and \<open>startServer\<close> fails
  with that error without spawning. When C# Devkit is not installed, the lookup raises
  nothing and returns no pipe name.
\<close>

theorem getBrokeredServicePipeName_contract:
  "(getExtension w = Some (Activated (Object ex)) \<longrightarrow> getBrokeredServiceServerPipeName ex = None \<longrightarrow>
      (\<exists>s1. waitForCSharpDevkitActivationAndGetExports w s = (Inr (Object ex), s1)
            \<and> getBrokeredServicePipeName s1 (Object ex) = Inl (Error missingExportMessage))
      \<and> (existsSync w (resolveServerPath w) \<longrightarrow>
            fst (startServer w sol lvl s) = Inl (Error missingExportMessage)
            \<and> spawned (events (snd (startServer w sol lvl s))) = spawned (events s)))
   \<and> (getExtension w = None \<longrightarrow>
      (\<exists>s1. waitForCSharpDevkitActivationAndGetExports w s = (Inr Falsy, s1)
            \<and> getBrokeredServicePipeName s1 Falsy = Inr None))"
  by (auto simp: waitForCSharpDevkitActivationAndGetExports_def getBrokeredServicePipeName_def
      missingExportMessage_def startServer_def Let_def appendLine_def spawned_append)

theorem getBrokeredServicePipeName_contract_witness:
  "fst (startServer (exampleWorld\<lparr>getExtension := Some (Activated (Object
          (exampleExports\<lparr>getBrokeredServiceServerPipeName := None\<rparr>)))\<rparr>)
        (Some exampleSolution) (Some ''Debug'') initialServer) = Inl (Error missingExportMessage)
   \<and> (\<exists>s1. waitForCSharpDevkitActivationAndGetExports exampleWorld initialServer = (Inr Falsy, s1)
            \<and> getBrokeredServicePipeName s1 Falsy = Inr None)"
proof -
  let ?w = "exampleWorld\<lparr>getExtension := Some (Activated (Object
          (exampleExports\<lparr>getBrokeredServiceServerPipeName := None\<rparr>)))\<rparr>"
  let ?ex = "exampleExports\<lparr>getBrokeredServiceServerPipeName := None\<rparr>"
  have present: "getExtension ?w = Some (Activated (Object ?ex))"
    by simp
  have lacks: "getBrokeredServiceServerPipeName ?ex = None"
    by simp
  have there: "existsSync ?w (resolveServerPath ?w)"
    by (simp add: resolveServerPath_def exampleWorld_def truthy_def)
  have absent: "getExtension exampleWorld = None"
    by (simp add: exampleWorld_def)
  have a: "fst (startServer ?w (Some exampleSolution) (Some ''Debug'') initialServer)
      = Inl (Error missingExportMessage)"
    using getBrokeredServicePipeName_contract
      [of ?w ?ex initialServer "Some exampleSolution" "Some ''Debug''"] present lacks there
    by blast
  have b: "\<exists>s1. waitForCSharpDevkitActivationAndGetExports exampleWorld initialServer = (Inr Falsy, s1)
            \<and> getBrokeredServicePipeName s1 Falsy = Inr None"
    using getBrokeredServicePipeName_contract
      [of exampleWorld exampleExports initialServer "Some exampleSolution" "Some ''Debug''"] absent
    by blast
  show ?thesis using a b by blast
qed

text \<open>
  C10. When C# Devkit is installed and its activation resolves to a falsy value, the
  flag records an activation with C# Devkit, and still \<open>getBrokeredServicePipeName\<close>
  returns no pipe name and raises nothing; nor is there a completion component path.
  \<open>startServer\<close> then spawns what it spawns when C# Devkit is not installed: the
  arguments built with no pipe name.
\<close>

theorem falsy_exports_no_pipe:
  "getExtension w = Some (Activated Falsy) \<longrightarrow>
     (\<exists>s1. waitForCSharpDevkitActivationAndGetExports w s = (Inr Falsy, s1)
           \<and> wasActivatedWithCSharpDevkit s1 = Some True
           \<and> getBrokeredServicePipeName s1 Falsy = Inr None
           \<and> getStarredCompletionComponentPath s1 Falsy = None)
     \<and> (existsSync w (resolveServerPath w) \<longrightarrow>
          fst (startServer w sol lvl s)
            = Inr (let args = buildArgs (waitForDebugger (commonOptions (GetLatestOptions w)))
                               lvl None sol None
                   in if endsWith (resolveServerPath w) ''.dll''
                      then \<lparr>command = ''dotnet'', argv = resolveServerPath w # args\<rparr>
                      else \<lparr>command = resolveServerPath w, argv = args\<rparr>)
          \<and> fst (startServer w sol lvl s) = fst (startServer (w\<lparr>getExtension := None\<rparr>) sol lvl s))"
  by (auto simp: waitForCSharpDevkitActivationAndGetExports_def getBrokeredServicePipeName_def
      getStarredCompletionComponentPath_def startServer_def Let_def appendLine_def
      resolveServerPath_def getServerFileName_def)

theorem falsy_exports_no_pipe_witness:
  "fst (startServer (exampleWorld\<lparr>getExtension := Some (Activated Falsy)\<rparr>)
         (Some exampleSolution) (Some ''Debug'') initialServer)
     = Inr \<lparr>command = ''dotnet'',
            argv = [''/opt/roslyn/Microsoft.CodeAnalysis.LanguageServer.dll'',
                    ''--debug'', ''--logLevel'', ''Debug'', ''--solutionPath'', ''/work/App.sln'']\<rparr>"
proof -
  let ?w = "exampleWorld\<lparr>getExtension := Some (Activated Falsy)\<rparr>"
  have dll: "resolveServerPath ?w = ''/opt/roslyn/Microsoft.CodeAnalysis.LanguageServer.dll''"
    by (simp add: resolveServerPath_def exampleWorld_def truthy_def)
  have present: "getExtension ?w = Some (Activated Falsy)"
    by simp
  have there: "existsSync ?w (resolveServerPath ?w)"
    unfolding dll by (simp add: exampleWorld_def)
  have "fst (startServer ?w (Some exampleSolution) (Some ''Debug'') initialServer)
      = Inr (let args = buildArgs (waitForDebugger (commonOptions (GetLatestOptions ?w)))
                          (Some ''Debug'') None (Some exampleSolution) None
             in if endsWith (resolveServerPath ?w) ''.dll''
                then \<lparr>command = ''dotnet'', argv = resolveServerPath ?w # args\<rparr>
                else \<lparr>command = resolveServerPath ?w, argv = args\<rparr>)"
    using falsy_exports_no_pipe [where w = ?w and s = initialServer and lvl = "Some ''Debug''"
        and sol = "Some exampleSolution"]
      present there
    by blast
  then show ?thesis
    unfolding dll
    by (simp add: endsWith_def buildArgs_def truthy_def exampleWorld_def exampleSolution_def)
qed

subsection \<open>Stop\<close>

text \<open>
  C8. \<open>stop\<close> on a server that holds no client resolves and changes nothing. When a
  client is held, \<open>stop\<close> asks it to stop with the timeout of 10000 ms; when that
  request resolves, it disposes the client with the same timeout and clears the handle;
  when the request rejects, \<open>stop\<close> rejects, nothing is disposed and the handle is
  kept.
\<close>

theorem stop_cases:
  "(languageClient s = None \<longrightarrow> stop w s = (Inr (), s))
   \<and> (languageClient s = Some c \<longrightarrow>
        (stopResolves w \<longrightarrow>
           stop w s = (Inr (), s\<lparr>events := events s @ [ClientStop c 10000, ClientDispose c 10000],
                               languageClient := None,
                               clients := removeAll c (clients s)\<rparr>))
        \<and> (\<not> stopResolves w \<longrightarrow>
           stop w s = (Inl (Rejected ''stop''), s\<lparr>events := events s @ [ClientStop c 10000]\<rparr>)))"
  by (auto simp: stop_def Let_def stopTimeout_def)

theorem stop_cases_witness:
  "stop exampleWorld initialServer = (Inr (), initialServer)
   \<and> stop exampleWorld runningServer
       = (Inr (), runningServer\<lparr>events := events runningServer @ [ClientStop 0 10000, ClientDispose 0 10000],
                               languageClient := None,
                               clients := removeAll 0 (clients runningServer)\<rparr>)
   \<and> stop (exampleWorld\<lparr>stopResolves := False\<rparr>) runningServer
       = (Inl (Rejected ''stop''), runningServer\<lparr>events := events runningServer @ [ClientStop 0 10000]\<rparr>)"
proof -
  have n: "languageClient initialServer = None"
    by (simp add: initialServer_def)
  have h: "languageClient runningServer = Some 0"
    by (simp add: runningServer_def)
  have r: "stopResolves exampleWorld"
    by (simp add: exampleWorld_def)
  have nr: "\<not> stopResolves (exampleWorld\<lparr>stopResolves := False\<rparr>)"
    by simp
  show ?thesis
    using stop_cases [of initialServer exampleWorld 0] n
      stop_cases [of runningServer exampleWorld 0] h r
      stop_cases [of runningServer "exampleWorld\<lparr>stopResolves := False\<rparr>" 0] nr
    by blast
qed

text \<open>A held client whose stop request rejects stays held and is not disposed.\<close>

theorem stop_rejecting_counterexample:
  "languageClient runningServer = Some 0
   \<and> stop (exampleWorld\<lparr>stopResolves := False\<rparr>) runningServer
       = (Inl (Rejected ''stop''), runningServer\<lparr>events := [ClientStop 0 10000]\<rparr>)
   \<and> languageClient (snd (stop (exampleWorld\<lparr>stopResolves := False\<rparr>) runningServer)) = Some 0"
  by (simp add: stop_def runningServer_def exampleWorld_def stopTimeout_def)

subsection \<open>The extension-change handler\<close>

text \<open>
  C9. On an extension-change event, when the flag records an activation without
  C# Devkit and C# Devkit is now installed, the handler writes one line to the channel
  and shows one prompt, which offers \<open>dotnet.restartServer\<close> under the title
  \<open>Restart Language Server\<close>. In every other case (no activation yet, C# Devkit
  still absent, or the last activation was with C# Devkit) it changes nothing.
\<close>

theorem onDidChange_prompt:
  "(wasActivatedWithCSharpDevkit s = Some False \<and> getExtension w \<noteq> None \<longrightarrow>
      onDidChange w s = s\<lparr>events := events s @ restartPrompt\<rparr>
      \<and> length (prompts (events (onDidChange w s))) = length (prompts (events s)) + 1)
   \<and> (\<not> (wasActivatedWithCSharpDevkit s = Some False \<and> getExtension w \<noteq> None) \<longrightarrow>
      onDidChange w s = s)"
  by (cases "wasActivatedWithCSharpDevkit s")
     (auto simp: onDidChange_def Let_def appendLine_def restartPrompt_def
        csharpDevkitExtensionId_def prompts_append)

theorem onDidChange_prompt_witness:
  "onDidChange (exampleWorld\<lparr>getExtension := Some (Activated (Object exampleExports))\<rparr>) runningServer
     = runningServer\<lparr>events := events runningServer @ restartPrompt\<rparr>
   \<and> onDidChange exampleWorld runningServer = runningServer
   \<and> onDidChange (exampleWorld\<lparr>getExtension := Some (Activated (Object exampleExports))\<rparr>) initialServer
     = initialServer"
proof -
  let ?w = "exampleWorld\<lparr>getExtension := Some (Activated (Object exampleExports))\<rparr>"
  have f: "wasActivatedWithCSharpDevkit runningServer = Some False"
    by (simp add: runningServer_def)
  have p: "getExtension ?w \<noteq> None"
    by simp
  have a: "getExtension exampleWorld = None"
    by (simp add: exampleWorld_def)
  have n: "wasActivatedWithCSharpDevkit initialServer \<noteq> Some False"
    by (simp add: initialServer_def)
  show ?thesis
    using onDidChange_prompt [of runningServer ?w] f p
      onDidChange_prompt [of runningServer exampleWorld] a
      onDidChange_prompt [of initialServer ?w] n
    by blast
qed

end
